theory Spec2Isabelle
  imports Complex_Main "HOL-Library.AList"
begin

section \<open>Python values the program handles\<close>

text \<open>
  The exceptions the modelled code can raise. \<open>UnsupportedCriterionError\<close> is the
  class declared in filters.py; the others are Python's own.
\<close>

datatype py_error =
    UnsupportedCriterionError
  | AttributeError
  | TypeError
  | ValueError
  | KeyError

text \<open>
  A Python float: a real number, one of the two infinities, or NaN. The comparisons
  are IEEE 754's: every ordered comparison and \<open>==\<close> with NaN on either side is false.
\<close>

datatype pyfloat = NaN | NegInf | Finite real | PosInf

fun float_lt :: "pyfloat \<Rightarrow> pyfloat \<Rightarrow> bool" where
  "float_lt NaN _ = False"
| "float_lt _ NaN = False"
| "float_lt _ NegInf = False"
| "float_lt NegInf _ = True"
| "float_lt PosInf _ = False"
| "float_lt _ PosInf = True"
| "float_lt (Finite a) (Finite b) = (a < b)"

definition float_eq :: "pyfloat \<Rightarrow> pyfloat \<Rightarrow> bool" where
  "float_eq x y = (x \<noteq> NaN \<and> y \<noteq> NaN \<and> x = y)"

definition float_le :: "pyfloat \<Rightarrow> pyfloat \<Rightarrow> bool" where
  "float_le x y = (float_lt x y \<or> float_eq x y)"

text \<open>\<open>datetime.date\<close> and \<open>datetime.datetime\<close>; dates are ordered by year, month, day.\<close>

datatype date = Date (year: nat) (month: nat) (day: nat)

datatype datetime = Datetime (date_of: date) (hour: nat) (minute: nat) (second: nat)

definition date_lt :: "date \<Rightarrow> date \<Rightarrow> bool" where
  "date_lt a b =
     (year a < year b \<or> (year a = year b \<and>
       (month a < month b \<or> (month a = month b \<and> day a < day b))))"

text \<open>
  The values that reach a filter, as attribute or as reference value: \<open>None\<close>, a bool,
  an int, a float or a date.
\<close>

datatype pyval = VNone | VBool bool | VInt int | VFloat pyfloat | VDate date

text \<open>The comparators of the \<open>operator\<close> module.\<close>

datatype cmp_op = Eq | Ne | Lt | Le | Gt | Ge

text \<open>bool, int and float compare with each other by numeric value.\<close>

fun num_of :: "pyval \<Rightarrow> pyfloat option" where
  "num_of (VBool b) = Some (Finite (if b then 1 else 0))"
| "num_of (VInt i) = Some (Finite (of_int i))"
| "num_of (VFloat x) = Some x"
| "num_of _ = None"

text \<open>
  \<open>==\<close> never raises: values of unrelated types are unequal. The ordered comparisons
  raise TypeError unless both sides are numbers or both are dates.
\<close>

definition py_eq :: "pyval \<Rightarrow> pyval \<Rightarrow> bool" where
  "py_eq x y =
     (case (num_of x, num_of y) of
        (Some a, Some b) \<Rightarrow> float_eq a b
      | _ \<Rightarrow> x = y)"

definition py_lt :: "pyval \<Rightarrow> pyval \<Rightarrow> py_error + bool" where
  "py_lt x y =
     (case (num_of x, num_of y) of
        (Some a, Some b) \<Rightarrow> Inr (float_lt a b)
      | _ \<Rightarrow> (case (x, y) of
                (VDate a, VDate b) \<Rightarrow> Inr (date_lt a b)
              | _ \<Rightarrow> Inl TypeError))"

definition py_le :: "pyval \<Rightarrow> pyval \<Rightarrow> py_error + bool" where
  "py_le x y =
     (case (num_of x, num_of y) of
        (Some a, Some b) \<Rightarrow> Inr (float_le a b)
      | _ \<Rightarrow> (case (x, y) of
                (VDate a, VDate b) \<Rightarrow> Inr (date_lt a b \<or> a = b)
              | _ \<Rightarrow> Inl TypeError))"

fun apply_op :: "cmp_op \<Rightarrow> pyval \<Rightarrow> pyval \<Rightarrow> py_error + bool" where
  "apply_op Eq x y = Inr (py_eq x y)"
| "apply_op Ne x y = Inr (\<not> py_eq x y)"
| "apply_op Lt x y = py_lt x y"
| "apply_op Le x y = py_le x y"
| "apply_op Gt x y = py_lt y x"
| "apply_op Ge x y = py_le y x"

text \<open>Sequencing of calls that may raise: the first exception ends the computation.\<close>

definition py_bind :: "py_error + 'a \<Rightarrow> ('a \<Rightarrow> py_error + 'b) \<Rightarrow> py_error + 'b" where
  "py_bind m f = (case m of Inl e \<Rightarrow> Inl e | Inr x \<Rightarrow> f x)"

section \<open>models.py\<close>

text \<open>
  A \<open>NearEarthObject\<close> holds its close approaches and a \<open>CloseApproach\<close> its NEO
  (\<open>None\<close> until the database links it); the object graph is modelled by value.
  A designation is a string, or \<open>None\<close>: the loader passes on what the CSV reader
  gives for the column, which is \<open>None\<close> on a line too short to have it.
\<close>

datatype NearEarthObject =
  NearEarthObject (designation: "string option") (name: "string option") (diameter: pyfloat)
    (hazardous: bool) (approaches: "CloseApproach list")
and CloseApproach =
  CloseApproach (c_designation: "string option") (time: "datetime option") (distance: pyfloat)
    (velocity: pyfloat) (neo: "NearEarthObject option")

text \<open>\<open>NearEarthObject.__init__\<close>: the four attributes and an empty approach list.\<close>

definition NearEarthObject_init ::
  "string option \<Rightarrow> string option \<Rightarrow> pyfloat \<Rightarrow> bool \<Rightarrow> NearEarthObject" where
  "NearEarthObject_init d n dia hz = NearEarthObject d n dia hz []"

text \<open>
  The module \<open>helpers\<close> that models.py imports is not part of the sources at hand: its
  two functions are parameters. Either may raise.
\<close>

record helpers =
  cd_to_datetime :: "string \<Rightarrow> py_error + datetime"
  datetime_to_str :: "datetime option \<Rightarrow> py_error + string"

text \<open>
  \<open>CloseApproach.__init__\<close>: a \<open>time\<close> given as a string goes through
  \<open>cd_to_datetime\<close>; any other value is stored as it is. \<open>neo\<close> starts as \<open>None\<close>.
\<close>

datatype time_arg = TimeStr string | TimeVal "datetime option"

definition CloseApproach_init ::
  "helpers \<Rightarrow> string option \<Rightarrow> time_arg \<Rightarrow> pyfloat \<Rightarrow> pyfloat \<Rightarrow> py_error + CloseApproach" where
  "CloseApproach_init H d t dst vel =
     (case t of
        TimeStr s \<Rightarrow>
          (case cd_to_datetime H s of
             Inl e \<Rightarrow> Inl e
           | Inr dt \<Rightarrow> Inr (CloseApproach d (Some dt) dst vel None))
      | TimeVal v \<Rightarrow> Inr (CloseApproach d v dst vel None))"

text \<open>\<open>CloseApproach.set_neo(neo=None)\<close>: assigns only when the argument is not \<open>None\<close>.\<close>

fun set_neo :: "CloseApproach \<Rightarrow> NearEarthObject option \<Rightarrow> CloseApproach" where
  "set_neo (CloseApproach d t dst vel old) new =
     (if new \<noteq> None then CloseApproach d t dst vel new
      else CloseApproach d t dst vel old)"

text \<open>
  Data as \<open>json.dump\<close> takes it and \<open>json.load\<close> gives it back: \<open>None\<close>, a bool, a
  float, a string, a list, or a dict with string keys in insertion order.
\<close>

datatype json =
    JNull | JBool bool | JNum pyfloat | JStr string
  | JArr "json list" | JObj "(string \<times> json) list"

text \<open>The two \<open>serialize\<close> methods.\<close>

definition NearEarthObject_serialize :: "NearEarthObject \<Rightarrow> (string \<times> json) list" where
  "NearEarthObject_serialize self =
     [(''designation'', (case designation self of None \<Rightarrow> JNull | Some s \<Rightarrow> JStr s)),
      (''name'', (case name self of None \<Rightarrow> JNull | Some s \<Rightarrow> JStr s)),
      (''diameter_km'', JNum (diameter self)),
      (''potentially_hazardous'', JBool (hazardous self))]"

definition CloseApproach_serialize ::
  "helpers \<Rightarrow> CloseApproach \<Rightarrow> py_error + (string \<times> json) list" where
  "CloseApproach_serialize H self =
     py_bind (datetime_to_str H (time self)) (\<lambda>s.
       Inr [(''datetime_utc'', JStr s),
            (''distance_au'', JNum (distance self)),
            (''velocity_km_s'', JNum (velocity self))])"

section \<open>filters.py\<close>

text \<open>
  The filter classes. An instance holds its class, the comparator and the reference
  value; \<open>get\<close> is the class method each subclass overrides.
\<close>

datatype filter_class =
    AttributeFilter | DateFilter | DistanceFilter | VelocityFilter
  | DiameterFilter | HazardousFilter

record filter_obj =
  cls :: filter_class
  op :: cmp_op
  ref_value :: pyval

fun get :: "filter_class \<Rightarrow> CloseApproach \<Rightarrow> py_error + pyval" where
  "get AttributeFilter a = Inl UnsupportedCriterionError"
| "get DateFilter a =
     (case time a of None \<Rightarrow> Inl AttributeError | Some t \<Rightarrow> Inr (VDate (date_of t)))"
| "get DistanceFilter a = Inr (VFloat (distance a))"
| "get VelocityFilter a = Inr (VFloat (velocity a))"
| "get DiameterFilter a =
     (case neo a of None \<Rightarrow> Inl AttributeError | Some n \<Rightarrow> Inr (VFloat (diameter n)))"
| "get HazardousFilter a =
     (case neo a of None \<Rightarrow> Inl AttributeError | Some n \<Rightarrow> Inr (VBool (hazardous n)))"

text \<open>
  Constructing a filter, \<open>C(op, value)\<close> for a filter class \<open>C\<close>: no class overrides
  \<open>AttributeFilter.__init__\<close>, which stores the two arguments and has no \<open>raise\<close>. The
  state threaded through is the list of the filter objects constructed so far.
\<close>

definition AttributeFilter_init ::
  "filter_class \<Rightarrow> cmp_op \<Rightarrow> pyval \<Rightarrow> filter_obj list
     \<Rightarrow> py_error + filter_obj \<times> filter_obj list" where
  "AttributeFilter_init c f v constructed =
     (let self = \<lparr>cls = c, op = f, ref_value = v\<rparr> in Inr (self, constructed @ [self]))"

text \<open>\<open>AttributeFilter.__call__\<close>: \<open>self.op(self.get(approach), self.value)\<close>.\<close>

definition call :: "filter_obj \<Rightarrow> CloseApproach \<Rightarrow> py_error + bool" where
  "call self approach =
     (case get (cls self) approach of
        Inl e \<Rightarrow> Inl e
      | Inr x \<Rightarrow> apply_op (op self) x (ref_value self))"

text \<open>
  \<open>create_filters\<close>: \<open>None\<close> when no argument is set; otherwise all ten filters are
  built, paired with their arguments, and those whose argument is \<open>None\<close> dropped.
  (The parameter \<open>hazardous\<close> is written \<open>hazardous'\<close>, apart from the attribute of a NEO.)
\<close>

definition create_filters ::
  "pyval \<Rightarrow> pyval \<Rightarrow> pyval \<Rightarrow> pyval \<Rightarrow> pyval \<Rightarrow> pyval \<Rightarrow> pyval \<Rightarrow> pyval \<Rightarrow> pyval \<Rightarrow> pyval
     \<Rightarrow> filter_obj list \<Rightarrow> py_error + filter_obj list option \<times> filter_obj list" where
  "create_filters date start_date end_date distance_min distance_max
       velocity_min velocity_max diameter_min diameter_max hazardous' h0 =
     (let args = [date, start_date, end_date, distance_min, distance_max,
                  velocity_min, velocity_max, diameter_min, diameter_max, hazardous'];
          args_not_none = filter (\<lambda>x. x \<noteq> VNone) args
      in if length args_not_none = 0 then Inr (None, h0)
      else
        py_bind (AttributeFilter_init DateFilter Eq date h0) (\<lambda>(filterDateEqual, h1).
        py_bind (AttributeFilter_init DateFilter Ge start_date h1) (\<lambda>(filterDateGe, h2).
        py_bind (AttributeFilter_init DateFilter Le end_date h2) (\<lambda>(filterDateLe, h3).
        py_bind (AttributeFilter_init DistanceFilter Ge distance_min h3) (\<lambda>(filterDistanceGe, h4).
        py_bind (AttributeFilter_init DistanceFilter Le distance_max h4) (\<lambda>(filterDistanceLe, h5).
        py_bind (AttributeFilter_init VelocityFilter Ge velocity_min h5) (\<lambda>(filterVelocityGe, h6).
        py_bind (AttributeFilter_init VelocityFilter Le velocity_max h6) (\<lambda>(filterVelocityLe, h7).
        py_bind (AttributeFilter_init DiameterFilter Ge diameter_min h7) (\<lambda>(filterDiameterGe, h8).
        py_bind (AttributeFilter_init DiameterFilter Le diameter_max h8) (\<lambda>(filterDiameterLe, h9).
        py_bind (AttributeFilter_init HazardousFilter Eq hazardous' h9) (\<lambda>(filterHazardous, h10).
        (let filters = [filterDateEqual, filterDateGe, filterDateLe,
                        filterDistanceGe, filterDistanceLe,
                        filterVelocityGe, filterVelocityLe,
                        filterDiameterGe, filterDiameterLe, filterHazardous];
             list_mapped_filters =
               map2 (\<lambda>arg flt. if arg \<noteq> VNone then Some flt else None) args filters;
             filters_not_none = List.map_filter (\<lambda>x. x) list_mapped_filters
         in Inr (Some filters_not_none, h10)))))))))))))"

text \<open>
  Iterators. \<open>ListIter xs\<close> is an iterator that still has the elements \<open>xs\<close> to
  produce. \<open>ISlice it k\<close> is \<open>itertools.islice(it, stop)\<close> with \<open>k\<close> elements left
  before \<open>stop\<close> is reached. \<open>next_it\<close> is one call of \<open>next\<close>: the element (\<open>None\<close> for
  StopIteration) and the iterator afterwards. An islice that has reached \<open>stop\<close> does not
  call \<open>next\<close> on the iterator below it.
\<close>

datatype 'a iterator = ListIter "'a list" | ISlice "'a iterator" nat

fun next_it :: "'a iterator \<Rightarrow> 'a option \<times> 'a iterator" where
  "next_it (ListIter []) = (None, ListIter [])"
| "next_it (ListIter (x # xs)) = (Some x, ListIter xs)"
| "next_it (ISlice it 0) = (None, ISlice it 0)"
| "next_it (ISlice it (Suc k)) =
     (case next_it it of
        (None, it') \<Rightarrow> (None, ISlice it' 0)
      | (Some x, it') \<Rightarrow> (Some x, ISlice it' k))"

text \<open>The elements an iterator has not yet taken from the list at its bottom.\<close>

fun source :: "'a iterator \<Rightarrow> 'a list" where
  "source (ListIter xs) = xs"
| "source (ISlice it k) = source it"

text \<open>An upper bound on the number of elements an iterator can still produce.\<close>

fun remaining :: "'a iterator \<Rightarrow> nat" where
  "remaining (ListIter xs) = length xs"
| "remaining (ISlice it k) = min k (remaining it)"

text \<open>\<open>pulls k it\<close>: the iterator after \<open>k\<close> calls of \<open>next\<close>.\<close>

fun pulls :: "nat \<Rightarrow> 'a iterator \<Rightarrow> 'a iterator" where
  "pulls 0 it = it"
| "pulls (Suc k) it = pulls k (snd (next_it it))"

text \<open>
  \<open>sys.maxsize\<close> of a 64-bit CPython. \<open>islice(it, stop)\<close> raises ValueError unless
  \<open>0 \<le> stop \<le> sys.maxsize\<close>.
\<close>

definition sys_maxsize :: int where
  "sys_maxsize = 2 ^ 63 - 1"

definition islice :: "'a iterator \<Rightarrow> int \<Rightarrow> py_error + 'a iterator" where
  "islice it stop =
     (if stop < 0 \<or> sys_maxsize < stop then Inl ValueError else Inr (ISlice it (nat stop)))"

text \<open>\<open>limit(iterator, n=None)\<close>; \<open>bool(n)\<close> is false for \<open>None\<close> and for 0.\<close>

definition py_bool :: "int option \<Rightarrow> bool" where
  "py_bool n = (case n of None \<Rightarrow> False | Some i \<Rightarrow> i \<noteq> 0)"

definition limit :: "'a iterator \<Rightarrow> int option \<Rightarrow> py_error + 'a iterator" where
  "limit iterator n = (if \<not> py_bool n then Inr iterator else islice iterator (the n))"

text \<open>
  \<open>list(it)\<close>: calls \<open>next\<close> until StopIteration. Every iterator here is finite, so
  the loop ends.
\<close>

function py_list :: "'a iterator \<Rightarrow> 'a list" where
  "py_list it = (case next_it it of (None, it') \<Rightarrow> [] | (Some x, it') \<Rightarrow> x # py_list it')"
  by pat_completeness auto
termination
proof (relation "measure remaining")
  show "wf (measure (remaining :: 'a iterator \<Rightarrow> nat))" by simp
next
  have step: "next_it it = (Some x, it') \<Longrightarrow> remaining it' < remaining it"
    for it it' :: "'a iterator" and x
    by (induction it arbitrary: it' x rule: next_it.induct)
       (auto split: prod.splits option.splits)
  fix it :: "'a iterator" and x y x2
  assume "(x, y) = next_it it" and "x = Some x2"
  then have "next_it it = (Some x2, y)" by simp
  then show "(y, it) \<in> measure remaining" using step by simp
qed

declare py_list.simps [simp del]

section \<open>extract.py\<close>

text \<open>
  \<open>load_neos\<close>. The rows are what \<open>csv.DictReader\<close> yields: a dict with one key per
  column of the header, whose value is the cell of the line, a string, or \<open>None\<close> when
  the line is too short to have that cell. \<open>row[k]\<close> raises KeyError for a column the
  header does not have; \<open>len\<close> and \<open>float\<close> raise TypeError on \<open>None\<close>. Python's
  \<open>float\<close> on a string is a parameter (it raises ValueError on a string that is not
  a number); \<open>float('nan')\<close> is NaN.
\<close>

type_synonym reader_row = "string \<rightharpoonup> string option"

definition getitem :: "reader_row \<Rightarrow> string \<Rightarrow> py_error + string option" where
  "getitem row k = (case row k of None \<Rightarrow> Inl KeyError | Some v \<Rightarrow> Inr v)"

definition py_len :: "string option \<Rightarrow> py_error + nat" where
  "py_len v = (case v of None \<Rightarrow> Inl TypeError | Some s \<Rightarrow> Inr (length s))"

definition float_of ::
  "(string \<Rightarrow> py_error + pyfloat) \<Rightarrow> string option \<Rightarrow> py_error + pyfloat" where
  "float_of py_float v = (case v of None \<Rightarrow> Inl TypeError | Some s \<Rightarrow> py_float s)"

definition load_neos_row ::
  "(string \<Rightarrow> py_error + pyfloat) \<Rightarrow> reader_row \<Rightarrow> py_error + NearEarthObject" where
  "load_neos_row py_float row =
     py_bind (getitem row ''pdes'') (\<lambda>pdes.
     py_bind (py_bind (getitem row ''name'') py_len) (\<lambda>name_len.
     py_bind (if name_len > 0 then getitem row ''name'' else Inr None) (\<lambda>name.
     py_bind (py_bind (getitem row ''diameter'') py_len) (\<lambda>diameter_len.
     py_bind (if diameter_len > 0
              then py_bind (getitem row ''diameter'') (float_of py_float)
              else Inr NaN) (\<lambda>diameter.
     py_bind (getitem row ''pha'') (\<lambda>pha_cell.
     (let pha = (pha_cell = Some ''Y'')
      in Inr (NearEarthObject_init pdes name diameter pha))))))))"

fun load_neos_loop ::
  "(string \<Rightarrow> py_error + pyfloat) \<Rightarrow> reader_row list \<Rightarrow> NearEarthObject list
     \<Rightarrow> py_error + NearEarthObject list" where
  "load_neos_loop py_float [] neos = Inr neos"
| "load_neos_loop py_float (row # rows) neos =
     (case load_neos_row py_float row of
        Inl e \<Rightarrow> Inl e
      | Inr neo_obj \<Rightarrow> load_neos_loop py_float rows (neos @ [neo_obj]))"

definition load_neos ::
  "(string \<Rightarrow> py_error + pyfloat) \<Rightarrow> reader_row list \<Rightarrow> py_error + NearEarthObject list" where
  "load_neos py_float rows = load_neos_loop py_float rows []"

section \<open>write.py\<close>

text \<open>
  What both writers compute for one result: the two serialized dicts. \<open>result.neo.designation\<close>
  is evaluated first, and raises AttributeError when \<open>result.neo\<close> is \<open>None\<close>.
\<close>

definition serialize_result ::
  "helpers \<Rightarrow> CloseApproach \<Rightarrow> py_error + (string \<times> json) list \<times> (string \<times> json) list" where
  "serialize_result H result =
     (case neo result of
        None \<Rightarrow> Inl AttributeError
      | Some rn \<Rightarrow>
          (let neo_d = NearEarthObject_serialize
                 (NearEarthObject_init (designation rn) (name rn) (diameter rn) (hazardous rn))
           in py_bind (CloseApproach_init H (designation rn) (TimeVal (time result))
                         (distance result) (velocity result)) (\<lambda>ca.
              py_bind (CloseApproach_serialize H ca) (\<lambda>approach.
              Inr (neo_d, approach)))))"

text \<open>
  \<open>write_to_json\<close>: the list is built result by result and dumped at the end; the value
  is the document in the file. \<open>approach['neo'] = neo\<close> is \<open>AList.update\<close>.
\<close>

fun write_to_json_loop ::
  "helpers \<Rightarrow> CloseApproach list \<Rightarrow> json list \<Rightarrow> py_error + json list" where
  "write_to_json_loop H [] lst = Inr lst"
| "write_to_json_loop H (result # results) lst =
     (case serialize_result H result of
        Inl e \<Rightarrow> Inl e
      | Inr (neo_d, approach) \<Rightarrow>
          write_to_json_loop H results
            (lst @ [JObj (AList.update ''neo'' (JObj neo_d) approach)]))"

definition write_to_json :: "helpers \<Rightarrow> CloseApproach list \<Rightarrow> py_error + json" where
  "write_to_json H results = py_bind (write_to_json_loop H results []) (\<lambda>lst. Inr (JArr lst))"

text \<open>
  \<open>write_to_csv\<close>: the header, then one row per result, each written as soon as it is
  computed. The value is the rows in the file and the exception that ended the call, if
  any. A row is the list of its cells, in the order of \<open>fieldnames\<close>, before they are
  turned into text. \<open>DictWriter.writerow\<close> raises ValueError on a key that is not a field
  name and writes the empty string for a field the dict lacks.
\<close>

definition fieldnames :: "string list" where
  "fieldnames = [''datetime_utc'', ''distance_au'', ''velocity_km_s'', ''designation'',
                 ''name'', ''diameter_km'', ''potentially_hazardous'']"

definition py_dict :: "(string \<times> json) list \<Rightarrow> (string \<times> json) list" where
  "py_dict pairs = foldl (\<lambda>d (k, v). AList.update k v d) [] pairs"

definition writerow :: "(string \<times> json) list \<Rightarrow> py_error + json list" where
  "writerow rowdict =
     (if \<exists>k \<in> set (map fst rowdict). k \<notin> set fieldnames then Inl ValueError
      else Inr (map (\<lambda>k. case map_of rowdict k of None \<Rightarrow> JStr [] | Some v \<Rightarrow> v) fieldnames))"

definition csv_row :: "helpers \<Rightarrow> CloseApproach \<Rightarrow> py_error + json list" where
  "csv_row H result =
     py_bind (serialize_result H result) (\<lambda>(neo_d, approach).
       (let neo_values = map snd neo_d;
            neo_keys = map fst neo_d;
            approach_values = map snd approach;
            approach_keys = map fst approach;
            dict_keys = approach_keys @ neo_keys;
            dict_values = approach_values @ neo_values
        in writerow (py_dict (zip dict_keys dict_values))))"

fun write_to_csv_loop ::
  "helpers \<Rightarrow> CloseApproach list \<Rightarrow> json list list \<Rightarrow> json list list \<times> py_error option" where
  "write_to_csv_loop H [] file = (file, None)"
| "write_to_csv_loop H (result # results) file =
     (case csv_row H result of
        Inl e \<Rightarrow> (file, Some e)
      | Inr row \<Rightarrow> write_to_csv_loop H results (file @ [row]))"

definition write_to_csv ::
  "helpers \<Rightarrow> CloseApproach list \<Rightarrow> json list list \<times> py_error option" where
  "write_to_csv H results = write_to_csv_loop H results [map JStr fieldnames]"

section \<open>Properties of the filters\<close>

lemma map_filter_if_Cons:
  "List.map_filter (\<lambda>x. x) ((if c then Some f else None) # xs) =
     (if c then [f] else []) @ List.map_filter (\<lambda>x. x) xs"
  by (simp add: List.map_filter_simps)

lemma map_filter_id_Nil: "List.map_filter (\<lambda>x. x) [] = []"
  by (simp add: List.map_filter_simps)

text \<open>
  C1, as the code has it. When at least one of the ten parameters is not \<open>None\<close>,
  \<open>create_filters\<close> returns, in the order of the parameters, exactly one filter per
  parameter that is set and none for a parameter that is unset: \<open>date\<close> gives a
  DateFilter with \<open>==\<close>, \<open>start_date\<close> one with \<open>>=\<close>, \<open>end_date\<close> one with \<open><=\<close>,
  \<open>distance_min\<close> and \<open>distance_max\<close> a DistanceFilter with \<open>>=\<close> and \<open><=\<close>,
  \<open>velocity_min\<close> and \<open>velocity_max\<close> a VelocityFilter with \<open>>=\<close> and \<open><=\<close>,
  \<open>diameter_min\<close> and \<open>diameter_max\<close> a DiameterFilter with \<open>>=\<close> and \<open><=\<close>, and
  \<open>hazardous\<close> (False is a set value) a HazardousFilter with \<open>==\<close>. On the way it
  constructs all ten filters, those of the unset parameters with the reference value
  \<open>None\<close>; these are not returned.
\<close>

theorem create_filters_returns_set_parameters:
  assumes "\<exists>x \<in> set [date, start_date, end_date, distance_min, distance_max, velocity_min,
                     velocity_max, diameter_min, diameter_max, hazardous']. x \<noteq> VNone"
  shows "create_filters date start_date end_date distance_min distance_max
           velocity_min velocity_max diameter_min diameter_max hazardous' h =
         Inr (Some (
             (if date \<noteq> VNone then [\<lparr>cls = DateFilter, op = Eq, ref_value = date\<rparr>] else [])
           @ (if start_date \<noteq> VNone then [\<lparr>cls = DateFilter, op = Ge, ref_value = start_date\<rparr>] else [])
           @ (if end_date \<noteq> VNone then [\<lparr>cls = DateFilter, op = Le, ref_value = end_date\<rparr>] else [])
           @ (if distance_min \<noteq> VNone then [\<lparr>cls = DistanceFilter, op = Ge, ref_value = distance_min\<rparr>] else [])
           @ (if distance_max \<noteq> VNone then [\<lparr>cls = DistanceFilter, op = Le, ref_value = distance_max\<rparr>] else [])
           @ (if velocity_min \<noteq> VNone then [\<lparr>cls = VelocityFilter, op = Ge, ref_value = velocity_min\<rparr>] else [])
           @ (if velocity_max \<noteq> VNone then [\<lparr>cls = VelocityFilter, op = Le, ref_value = velocity_max\<rparr>] else [])
           @ (if diameter_min \<noteq> VNone then [\<lparr>cls = DiameterFilter, op = Ge, ref_value = diameter_min\<rparr>] else [])
           @ (if diameter_max \<noteq> VNone then [\<lparr>cls = DiameterFilter, op = Le, ref_value = diameter_max\<rparr>] else [])
           @ (if hazardous' \<noteq> VNone then [\<lparr>cls = HazardousFilter, op = Eq, ref_value = hazardous'\<rparr>] else [])),
           h @ [\<lparr>cls = DateFilter, op = Eq, ref_value = date\<rparr>,
                \<lparr>cls = DateFilter, op = Ge, ref_value = start_date\<rparr>,
                \<lparr>cls = DateFilter, op = Le, ref_value = end_date\<rparr>,
                \<lparr>cls = DistanceFilter, op = Ge, ref_value = distance_min\<rparr>,
                \<lparr>cls = DistanceFilter, op = Le, ref_value = distance_max\<rparr>,
                \<lparr>cls = VelocityFilter, op = Ge, ref_value = velocity_min\<rparr>,
                \<lparr>cls = VelocityFilter, op = Le, ref_value = velocity_max\<rparr>,
                \<lparr>cls = DiameterFilter, op = Ge, ref_value = diameter_min\<rparr>,
                \<lparr>cls = DiameterFilter, op = Le, ref_value = diameter_max\<rparr>,
                \<lparr>cls = HazardousFilter, op = Eq, ref_value = hazardous'\<rparr>])"
proof -
  let ?args = "[date, start_date, end_date, distance_min, distance_max,
                velocity_min, velocity_max, diameter_min, diameter_max, hazardous']"
  from assms have "filter (\<lambda>x. x \<noteq> VNone) ?args \<noteq> []"
    unfolding filter_empty_conv by blast
  then have nz: "length (filter (\<lambda>x. x \<noteq> VNone) ?args) \<noteq> 0"
    by simp
  show ?thesis
    unfolding create_filters_def Let_def
    apply (simp only: nz if_False)
    apply (simp only: AttributeFilter_init_def Let_def py_bind_def sum.case prod.case
        zip_Cons_Cons zip_Nil list.map map_filter_if_Cons map_filter_id_Nil
        append_Nil2 append_assoc append_Cons append_Nil)
    done
qed

theorem create_filters_returns_set_parameters_witness:
  "create_filters (VDate (Date 2027 4 30)) VNone VNone VNone VNone VNone VNone VNone VNone
       (VBool False) [] =
     Inr (Some [\<lparr>cls = DateFilter, op = Eq, ref_value = (VDate (Date 2027 4 30))\<rparr>,
                \<lparr>cls = HazardousFilter, op = Eq, ref_value = VBool False\<rparr>],
       [\<lparr>cls = DateFilter, op = Eq, ref_value = VDate (Date 2027 4 30)\<rparr>,
        \<lparr>cls = DateFilter, op = Ge, ref_value = VNone\<rparr>,
        \<lparr>cls = DateFilter, op = Le, ref_value = VNone\<rparr>,
        \<lparr>cls = DistanceFilter, op = Ge, ref_value = VNone\<rparr>,
        \<lparr>cls = DistanceFilter, op = Le, ref_value = VNone\<rparr>,
        \<lparr>cls = VelocityFilter, op = Ge, ref_value = VNone\<rparr>,
        \<lparr>cls = VelocityFilter, op = Le, ref_value = VNone\<rparr>,
        \<lparr>cls = DiameterFilter, op = Ge, ref_value = VNone\<rparr>,
        \<lparr>cls = DiameterFilter, op = Le, ref_value = VNone\<rparr>,
        \<lparr>cls = HazardousFilter, op = Eq, ref_value = VBool False\<rparr>])"
  using create_filters_returns_set_parameters
    [of "VDate (Date 2027 4 30)" VNone VNone VNone VNone VNone VNone VNone VNone "VBool False" "[]"]
  by simp

text \<open>
  C1 as stated fails in its last part: called with only \<open>date\<close> set, \<open>create_filters\<close>
  constructs nine filters whose reference value is \<open>None\<close>, among them
  \<open>DateFilter(operator.ge, None)\<close>.
\<close>

theorem create_filters_constructs_placeholders:
  "create_filters (VDate (Date 2027 4 30)) VNone VNone VNone VNone VNone VNone VNone VNone VNone [] =
     Inr (Some [\<lparr>cls = DateFilter, op = Eq, ref_value = (VDate (Date 2027 4 30))\<rparr>],
       [\<lparr>cls = DateFilter, op = Eq, ref_value = VDate (Date 2027 4 30)\<rparr>,
        \<lparr>cls = DateFilter, op = Ge, ref_value = VNone\<rparr>,
        \<lparr>cls = DateFilter, op = Le, ref_value = VNone\<rparr>,
        \<lparr>cls = DistanceFilter, op = Ge, ref_value = VNone\<rparr>,
        \<lparr>cls = DistanceFilter, op = Le, ref_value = VNone\<rparr>,
        \<lparr>cls = VelocityFilter, op = Ge, ref_value = VNone\<rparr>,
        \<lparr>cls = VelocityFilter, op = Le, ref_value = VNone\<rparr>,
        \<lparr>cls = DiameterFilter, op = Ge, ref_value = VNone\<rparr>,
        \<lparr>cls = DiameterFilter, op = Le, ref_value = VNone\<rparr>,
        \<lparr>cls = HazardousFilter, op = Eq, ref_value = VNone\<rparr>])"
  by (simp add: create_filters_def AttributeFilter_init_def py_bind_def Let_def
      List.map_filter_simps)

text \<open>
  C2. With all ten parameters unset \<open>create_filters\<close> returns \<open>None\<close> (and constructs
  nothing): not the empty list, which is a different value.
\<close>

theorem create_filters_all_unset:
  "create_filters VNone VNone VNone VNone VNone VNone VNone VNone VNone VNone h = Inr (None, h)
   \<and> create_filters VNone VNone VNone VNone VNone VNone VNone VNone VNone VNone h
       \<noteq> Inr (Some [], h)"
  by (simp add: create_filters_def)




text \<open>
  C5, as the code has it. Constructing the base predicate succeeds, for every operator
  and reference value: the result is an \<open>AttributeFilter\<close> object. Invoking that object
  on any approach raises UnsupportedCriterionError.
\<close>

theorem base_filter_fails_when_invoked:
  "AttributeFilter_init AttributeFilter f v h =
     Inr (\<lparr>cls = AttributeFilter, op = f, ref_value = v\<rparr>,
          h @ [\<lparr>cls = AttributeFilter, op = f, ref_value = v\<rparr>])
   \<and> call \<lparr>cls = AttributeFilter, op = f, ref_value = v\<rparr> a = Inl UnsupportedCriterionError"
  by (simp add: AttributeFilter_init_def call_def Let_def)

text \<open>
  C5 as stated fails for construction: \<open>AttributeFilter(operator.eq, 1.0)\<close> raises
  nothing.
\<close>

theorem base_filter_construction_succeeds:
  "AttributeFilter_init AttributeFilter Eq (VFloat (Finite 1)) []
     \<noteq> Inl UnsupportedCriterionError"
  by (simp add: AttributeFilter_init_def Let_def)

section \<open>Properties of limit\<close>

lemma py_list_ListIter: "py_list (ListIter xs) = xs"
  by (induction xs) (simp_all add: py_list.simps [of "ListIter _"])

lemma py_list_ISlice: "py_list (ISlice (ListIter xs) k) = take k xs"
proof (induction xs arbitrary: k)
  case Nil
  show ?case by (cases k) (simp_all add: py_list.simps [of "ISlice _ _"])
next
  case (Cons x xs)
  show ?case
  proof (cases k)
    case 0
    then show ?thesis by (simp add: py_list.simps [of "ISlice _ _"])
  next
    case (Suc j)
    then show ?thesis using Cons [of j] by (simp add: py_list.simps [of "ISlice _ (Suc _)"])
  qed
qed

lemma source_pulls_ISlice:
  "source (pulls j (ISlice (ListIter xs) k)) = drop (min j k) xs"
proof (induction j arbitrary: xs k)
  case 0
  show ?case by simp
next
  case (Suc j)
  show ?case
  proof (cases k)
    case 0
    then show ?thesis using Suc [of xs 0] by simp
  next
    case k: (Suc k')
    show ?thesis
    proof (cases xs)
      case Nil
      then show ?thesis using k Suc [of "[]" 0] by simp
    next
      case (Cons y ys)
      then show ?thesis using k Suc [of ys k'] by simp
    qed
  qed
qed

text \<open>
  C4, as the code has it. \<open>limit(it, 0)\<close> and \<open>limit(it, None)\<close> return the iterator
  they were given, so a sequence is produced unchanged. For an integer \<open>n\<close> with
  \<open>0 < n \<le> sys.maxsize\<close>, \<open>limit(seq, n)\<close> is an islice that yields the first \<open>n\<close>
  elements of \<open>seq\<close> in their order, which is all of \<open>seq\<close> when \<open>n\<close> is at least its
  length; and after any number \<open>k\<close> of calls of \<open>next\<close> on it, exactly the first
  \<open>min k n\<close> elements have been taken from \<open>seq\<close>: never one beyond the \<open>n\<close>-th.
\<close>

theorem limit_yields_prefix:
  assumes "0 < n" and "n \<le> sys_maxsize"
  shows "limit it (Some 0) = Inr it \<and> limit it None = Inr it
       \<and> py_list (ListIter seq) = seq
       \<and> limit (ListIter seq) (Some n) = Inr (ISlice (ListIter seq) (nat n))
       \<and> py_list (ISlice (ListIter seq) (nat n)) = take (nat n) seq
       \<and> (int (length seq) \<le> n \<longrightarrow> py_list (ISlice (ListIter seq) (nat n)) = seq)
       \<and> source (pulls k (ISlice (ListIter seq) (nat n))) = drop (min k (nat n)) seq"
  using assms
  by (simp add: limit_def py_bool_def islice_def py_list_ListIter py_list_ISlice
      source_pulls_ISlice)

theorem limit_yields_prefix_witness:
  "limit (ListIter [10, 20, 30, 40 :: int]) (Some 2) = Inr (ISlice (ListIter [10, 20, 30, 40]) 2)
   \<and> py_list (ISlice (ListIter [10, 20, 30, 40 :: int]) 2) = [10, 20]
   \<and> source (pulls 4 (ISlice (ListIter [10, 20, 30, 40 :: int]) 2)) = [30, 40]
   \<and> py_list (ISlice (ListIter [10, 20, 30, 40 :: int]) 7) = [10, 20, 30, 40]"
proof -
  have small: "(0::int) < 2" "(2::int) \<le> sys_maxsize"
    and large: "(0::int) < 7" "(7::int) \<le> sys_maxsize"
    by (simp_all add: sys_maxsize_def)
  from limit_yields_prefix [OF small, of "ListIter ([] :: int list)" "[10, 20, 30, 40 :: int]" 4]
    limit_yields_prefix [OF large, of "ListIter ([] :: int list)" "[10, 20, 30, 40 :: int]" 0]
  show ?thesis by simp
qed

text \<open>
  C4 as stated fails for an integer above \<open>sys.maxsize\<close>: \<open>2 ^ 63\<close> is at least the
  length of a sequence of three elements, and \<open>limit\<close> raises ValueError instead of
  yielding the sequence.
\<close>

theorem limit_beyond_maxsize_raises:
  "limit (ListIter [10, 20, 30 :: int]) (Some (2 ^ 63)) = Inl ValueError"
  by (simp add: limit_def py_bool_def islice_def sys_maxsize_def)

text \<open>
  C10. For every negative integer \<open>n\<close>, \<open>limit(it, n)\<close> raises ValueError: it neither
  returns the iterator nor an iterator over a prefix.
\<close>

theorem limit_negative_raises:
  "n < 0 \<Longrightarrow> limit it (Some n) = Inl ValueError"
  by (simp add: limit_def py_bool_def islice_def)

theorem limit_negative_raises_witness:
  "limit (ListIter [10, 20, 30 :: int]) (Some (- 1)) = Inl ValueError"
  using limit_negative_raises [of "- 1" "ListIter [10, 20, 30 :: int]"] by simp

section \<open>Properties of the loader\<close>

lemma load_neos_row_loads:
  assumes "row ''pdes'' = Some pdes" and "row ''name'' = Some (Some nm)"
    and "row ''diameter'' = Some (Some dia)" and "row ''pha'' = Some pha"
    and "dia \<noteq> [] \<Longrightarrow> py_float dia = Inr d"
  shows "load_neos_row py_float row =
     Inr (NearEarthObject pdes (if nm = [] then None else Some nm)
            (if dia = [] then NaN else d) (pha = Some ''Y'') [])"
  using assms
  by (cases "dia = []")
     (simp_all add: load_neos_row_def getitem_def py_len_def float_of_def py_bind_def
        NearEarthObject_init_def)

lemma load_neos_row_short_line:
  "row ''pdes'' = Some pdes \<Longrightarrow> row ''name'' = Some None \<Longrightarrow>
     load_neos_row py_float row = Inl TypeError"
  "row ''pdes'' = Some pdes \<Longrightarrow> row ''name'' = Some (Some nm) \<Longrightarrow>
     row ''diameter'' = Some None \<Longrightarrow> load_neos_row py_float row = Inl TypeError"
  by (simp_all add: load_neos_row_def getitem_def py_len_def py_bind_def)

lemma load_neos_row_Inr:
  assumes "load_neos_row py_float row = Inr n"
  shows "\<exists>pdes nm dia pha.
           row ''pdes'' = Some pdes \<and> row ''name'' = Some (Some nm)
         \<and> row ''diameter'' = Some (Some dia) \<and> row ''pha'' = Some pha
         \<and> designation n = pdes
         \<and> name n = (if nm = [] then None else Some nm)
         \<and> (if dia = [] then diameter n = NaN else py_float dia = Inr (diameter n))
         \<and> hazardous n = (pha = Some ''Y'')
         \<and> approaches n = []"
proof -
  note defs = load_neos_row_def getitem_def py_len_def float_of_def py_bind_def
  from assms obtain pdes where pdes: "row ''pdes'' = Some pdes"
    by (cases "row ''pdes''") (simp_all add: defs)
  from assms pdes obtain nm where nm: "row ''name'' = Some (Some nm)"
    by (cases "row ''name''"; cases "the (row ''name'')") (simp_all add: defs)
  from assms pdes nm obtain dia where dia: "row ''diameter'' = Some (Some dia)"
    by (cases "row ''diameter''"; cases "the (row ''diameter'')")
       (simp_all add: defs split: if_splits)
  from assms pdes nm dia obtain pha where pha: "row ''pha'' = Some pha"
    by (cases "row ''pha''") (simp_all add: defs split: if_splits sum.splits)
  from assms pdes nm dia pha
  have "if dia = [] then n = NearEarthObject pdes (if nm = [] then None else Some nm) NaN
                             (pha = Some ''Y'') []
        else \<exists>d. py_float dia = Inr d
               \<and> n = NearEarthObject pdes (if nm = [] then None else Some nm) d
                     (pha = Some ''Y'') []"
    by (cases "py_float dia")
       (auto simp: defs NearEarthObject_init_def split: if_splits)
  with pdes nm dia pha show ?thesis
    by (cases "dia = []") auto
qed

lemma load_neos_loop_Inr:
  "load_neos_loop py_float rows acc = Inr neos \<Longrightarrow>
     \<exists>new. neos = acc @ new \<and> list_all2 (\<lambda>row n. load_neos_row py_float row = Inr n) rows new"
proof (induction rows arbitrary: acc)
  case Nil
  then show ?case by simp
next
  case (Cons row rows)
  from Cons.prems obtain n where n: "load_neos_row py_float row = Inr n"
    and rest: "load_neos_loop py_float rows (acc @ [n]) = Inr neos"
    by (auto split: sum.splits)
  from Cons.IH [OF rest] obtain new where "neos = (acc @ [n]) @ new"
    and "list_all2 (\<lambda>row n. load_neos_row py_float row = Inr n) rows new"
    by blast
  with n have "neos = acc @ (n # new)"
    and "list_all2 (\<lambda>row n. load_neos_row py_float row = Inr n) (row # rows) (n # new)"
    by simp_all
  then show ?case by blast
qed

text \<open>
  C7. When \<open>load_neos\<close> returns, it returns one NEO per row, in order, and for every row:
  the designation is the cell of the column \<open>pdes\<close>; the cells of \<open>name\<close> and
  \<open>diameter\<close> are strings; an empty \<open>name\<close> gives the name \<open>None\<close> and any other string
  gives that string; an empty \<open>diameter\<close> gives NaN and any other string the float that
  \<open>float\<close> parses from it; \<open>hazardous\<close> is true exactly when the cell of \<open>pha\<close> is the
  string \<open>Y\<close> (so it is false for any other string and for a line that has no such
  cell); and the list of approaches is empty.
\<close>

theorem load_neos_fields:
  assumes "load_neos py_float rows = Inr neos" and "i < length rows"
  shows "length neos = length rows \<and>
     (\<exists>pdes nm dia pha.
           (rows ! i) ''pdes'' = Some pdes \<and> (rows ! i) ''name'' = Some (Some nm)
         \<and> (rows ! i) ''diameter'' = Some (Some dia) \<and> (rows ! i) ''pha'' = Some pha
         \<and> designation (neos ! i) = pdes
         \<and> name (neos ! i) = (if nm = [] then None else Some nm)
         \<and> (if dia = [] then diameter (neos ! i) = NaN
             else py_float dia = Inr (diameter (neos ! i)))
         \<and> hazardous (neos ! i) = (pha = Some ''Y'')
         \<and> approaches (neos ! i) = [])"
proof -
  from assms(1) have rel: "list_all2 (\<lambda>row n. load_neos_row py_float row = Inr n) rows neos"
    using load_neos_loop_Inr [of py_float rows "[]" neos] by (simp add: load_neos_def)
  then have len: "length neos = length rows"
    by (simp add: list_all2_lengthD)
  from rel assms(2) have "load_neos_row py_float (rows ! i) = Inr (neos ! i)"
    by (rule list_all2_nthD)
  from load_neos_row_Inr [OF this] len show ?thesis by simp
qed

theorem load_neos_fields_witness:
  "load_neos (\<lambda>s. if s = ''16.84'' then Inr (Finite 16.84) else Inl ValueError)
    [map_of [(''pdes'', Some ''433''), (''name'', Some ''Eros''), (''diameter'', Some ''16.84''),
             (''pha'', Some ''N'')],
     map_of [(''pdes'', Some ''2020 AB''), (''name'', Some []), (''diameter'', Some []),
             (''pha'', Some ''Y'')],
     map_of [(''pdes'', Some ''2021 CD''), (''name'', Some []), (''diameter'', Some ''16.84''),
             (''pha'', None)]]
   = Inr [NearEarthObject (Some ''433'') (Some ''Eros'') (Finite 16.84) False [],
          NearEarthObject (Some ''2020 AB'') None NaN True [],
          NearEarthObject (Some ''2021 CD'') None (Finite 16.84) False []]
   \<and> name ([NearEarthObject (Some ''433'') (Some ''Eros'') (Finite 16.84) False [],
          NearEarthObject (Some ''2020 AB'') None NaN True [],
          NearEarthObject (Some ''2021 CD'') None (Finite 16.84) False []] ! 1) = None
   \<and> diameter ([NearEarthObject (Some ''433'') (Some ''Eros'') (Finite 16.84) False [],
          NearEarthObject (Some ''2020 AB'') None NaN True [],
          NearEarthObject (Some ''2021 CD'') None (Finite 16.84) False []] ! 1) = NaN
   \<and> hazardous ([NearEarthObject (Some ''433'') (Some ''Eros'') (Finite 16.84) False [],
          NearEarthObject (Some ''2020 AB'') None NaN True [],
          NearEarthObject (Some ''2021 CD'') None (Finite 16.84) False []] ! 1)
   \<and> \<not> hazardous ([NearEarthObject (Some ''433'') (Some ''Eros'') (Finite 16.84) False [],
          NearEarthObject (Some ''2020 AB'') None NaN True [],
          NearEarthObject (Some ''2021 CD'') None (Finite 16.84) False []] ! 2)"
proof -
  let ?pf = "(\<lambda>s. if s = ''16.84'' then Inr (Finite 16.84) else Inl ValueError)"
  let ?rows = "[map_of [(''pdes'', Some ''433''), (''name'', Some ''Eros''), (''diameter'', Some ''16.84''),
             (''pha'', Some ''N'')],
     map_of [(''pdes'', Some ''2020 AB''), (''name'', Some []), (''diameter'', Some []),
             (''pha'', Some ''Y'')],
     map_of [(''pdes'', Some ''2021 CD''), (''name'', Some []), (''diameter'', Some ''16.84''),
             (''pha'', None)]]"
  let ?neos = "[NearEarthObject (Some ''433'') (Some ''Eros'') (Finite 16.84) False [],
          NearEarthObject (Some ''2020 AB'') None NaN True [],
          NearEarthObject (Some ''2021 CD'') None (Finite 16.84) False []]"
  have loaded: "load_neos ?pf ?rows = Inr ?neos"
    by (simp add: load_neos_def load_neos_row_def getitem_def py_len_def float_of_def
        py_bind_def NearEarthObject_init_def)
  have idx: "(1::nat) < length ?rows" "(2::nat) < length ?rows" by simp_all
  from load_neos_fields [OF loaded idx(1)] load_neos_fields [OF loaded idx(2)] loaded
  show ?thesis by simp
qed

section \<open>Properties of the writers\<close>

lemma serialize_result_unresolved:
  "neo r = None \<Longrightarrow> serialize_result H r = Inl AttributeError"
  by (simp add: serialize_result_def)

lemma serialize_result_resolved:
  "neo r = Some n \<Longrightarrow> datetime_to_str H (time r) = Inr s \<Longrightarrow>
     serialize_result H r =
       Inr ([(''designation'', (case designation n of None \<Rightarrow> JNull | Some s \<Rightarrow> JStr s)),
             (''name'', (case name n of None \<Rightarrow> JNull | Some s \<Rightarrow> JStr s)),
             (''diameter_km'', JNum (diameter n)),
             (''potentially_hazardous'', JBool (hazardous n))],
            [(''datetime_utc'', JStr s),
             (''distance_au'', JNum (distance r)),
             (''velocity_km_s'', JNum (velocity r))])"
  by (simp add: serialize_result_def NearEarthObject_serialize_def NearEarthObject_init_def
      CloseApproach_init_def CloseApproach_serialize_def py_bind_def)

lemma serialize_result_error:
  "serialize_result H r = Inl e \<Longrightarrow> \<not> isl (datetime_to_str H (time r)) \<Longrightarrow>
     neo r = None \<and> e = AttributeError"
  by (cases "neo r"; cases "datetime_to_str H (time r)")
     (auto simp: serialize_result_unresolved serialize_result_resolved)

lemma csv_row_unresolved: "neo r = None \<Longrightarrow> csv_row H r = Inl AttributeError"
  by (simp add: csv_row_def serialize_result_unresolved py_bind_def)

lemma csv_row_resolved:
  "neo r = Some n \<Longrightarrow> datetime_to_str H (time r) = Inr s \<Longrightarrow>
     csv_row H r =
       Inr [JStr s, JNum (distance r), JNum (velocity r),
            (case designation n of None \<Rightarrow> JNull | Some s \<Rightarrow> JStr s),
            (case name n of None \<Rightarrow> JNull | Some s \<Rightarrow> JStr s),
            JNum (diameter n), JBool (hazardous n)]"
  by (simp add: csv_row_def serialize_result_resolved py_bind_def py_dict_def writerow_def
      fieldnames_def)

lemma csv_row_error:
  "csv_row H r = Inl e \<Longrightarrow> \<not> isl (datetime_to_str H (time r)) \<Longrightarrow>
     neo r = None \<and> e = AttributeError"
  by (cases "neo r"; cases "datetime_to_str H (time r)")
     (auto simp: csv_row_unresolved csv_row_resolved)

lemma json_loop_fails:
  "a \<in> set results \<Longrightarrow> neo a = None \<Longrightarrow> isl (write_to_json_loop H results lst)"
  by (induction results arbitrary: lst)
     (auto simp: serialize_result_unresolved split: sum.splits)

lemma json_loop_AttributeError:
  "a \<in> set results \<Longrightarrow> neo a = None \<Longrightarrow>
   \<forall>r \<in> set results. \<not> isl (datetime_to_str H (time r)) \<Longrightarrow>
   write_to_json_loop H results lst = Inl AttributeError"
proof (induction results arbitrary: lst)
  case Nil
  then show ?case by simp
next
  case (Cons r rs)
  show ?case
  proof (cases "serialize_result H r")
    case (Inl e)
    with Cons.prems(3) serialize_result_error [of H r e] show ?thesis by simp
  next
    case (Inr p)
    with Cons.prems(1,2) have "a \<in> set rs"
      by (auto simp: serialize_result_unresolved)
    with Cons.IH Cons.prems(2,3) Inr show ?thesis by (simp split: prod.splits)
  qed
qed

lemma csv_loop_fails:
  "a \<in> set results \<Longrightarrow> neo a = None \<Longrightarrow> snd (write_to_csv_loop H results out) \<noteq> None"
  by (induction results arbitrary: out)
     (auto simp: csv_row_unresolved split: sum.splits)

lemma csv_loop_AttributeError:
  "a \<in> set results \<Longrightarrow> neo a = None \<Longrightarrow>
   \<forall>r \<in> set results. \<not> isl (datetime_to_str H (time r)) \<Longrightarrow>
   snd (write_to_csv_loop H results out) = Some AttributeError"
proof (induction results arbitrary: out)
  case Nil
  then show ?case by simp
next
  case (Cons r rs)
  show ?case
  proof (cases "csv_row H r")
    case (Inl e)
    with Cons.prems(3) csv_row_error [of H r e] show ?thesis by simp
  next
    case (Inr row)
    with Cons.prems(1,2) have "a \<in> set rs"
      by (auto simp: csv_row_unresolved)
    with Cons.IH Cons.prems(2,3) Inr show ?thesis by simp
  qed
qed

text \<open>
  C8. Both writers evaluate \<open>result.neo.designation\<close> first for each result, so on a
  result whose \<open>neo\<close> is \<open>None\<close> that step raises AttributeError. A call with such a
  result among the results therefore fails in both writers; and the exception is
  AttributeError whenever no \<open>time\<close> among the results makes \<open>datetime_to_str\<close> raise
  (the one other step that can fail before the unresolved result is reached).
\<close>

theorem writers_need_resolved_neo:
  assumes "a \<in> set results" and "neo a = None"
  shows "serialize_result H a = Inl AttributeError
       \<and> csv_row H a = Inl AttributeError
       \<and> isl (write_to_json H results)
       \<and> snd (write_to_csv H results) \<noteq> None
       \<and> ((\<forall>r \<in> set results. \<not> isl (datetime_to_str H (time r))) \<longrightarrow>
            write_to_json H results = Inl AttributeError
            \<and> snd (write_to_csv H results) = Some AttributeError)"
  using assms json_loop_fails [OF assms, of H "[]"]
    json_loop_AttributeError [OF assms, of H "[]"]
    csv_loop_fails [OF assms] csv_loop_AttributeError [OF assms]
  by (auto simp: serialize_result_unresolved csv_row_unresolved write_to_json_def
      write_to_csv_def py_bind_def split: sum.splits)

theorem writers_need_resolved_neo_witness:
  "serialize_result \<lparr>cd_to_datetime = (\<lambda>s. Inl ValueError), datetime_to_str = (\<lambda>t. case t of None \<Rightarrow> Inl TypeError | Some d \<Rightarrow> Inr ''2027-04-30 12:00'')\<rparr> (CloseApproach (Some ''999'') (Some (Datetime (Date 2027 4 30) 12 0 0)) (Finite 0.3) (Finite 7) None) = Inl AttributeError
   \<and> write_to_json \<lparr>cd_to_datetime = (\<lambda>s. Inl ValueError), datetime_to_str = (\<lambda>t. case t of None \<Rightarrow> Inl TypeError | Some d \<Rightarrow> Inr ''2027-04-30 12:00'')\<rparr> [(CloseApproach (Some ''433'') (Some (Datetime (Date 2027 4 30) 12 0 0)) (Finite 0.15) (Finite 5.2) (Some (NearEarthObject (Some ''433'') (Some ''Eros'') (Finite 16.84) False []))), (CloseApproach (Some ''999'') (Some (Datetime (Date 2027 4 30) 12 0 0)) (Finite 0.3) (Finite 7) None), (CloseApproach (Some ''2020 AB'') (Some (Datetime (Date 2027 4 30) 12 0 0)) (Finite 0.02) (Finite 11) (Some (NearEarthObject (Some ''2020 AB'') None NaN True [])))] = Inl AttributeError
   \<and> snd (write_to_csv \<lparr>cd_to_datetime = (\<lambda>s. Inl ValueError), datetime_to_str = (\<lambda>t. case t of None \<Rightarrow> Inl TypeError | Some d \<Rightarrow> Inr ''2027-04-30 12:00'')\<rparr> [(CloseApproach (Some ''433'') (Some (Datetime (Date 2027 4 30) 12 0 0)) (Finite 0.15) (Finite 5.2) (Some (NearEarthObject (Some ''433'') (Some ''Eros'') (Finite 16.84) False []))), (CloseApproach (Some ''999'') (Some (Datetime (Date 2027 4 30) 12 0 0)) (Finite 0.3) (Finite 7) None), (CloseApproach (Some ''2020 AB'') (Some (Datetime (Date 2027 4 30) 12 0 0)) (Finite 0.02) (Finite 11) (Some (NearEarthObject (Some ''2020 AB'') None NaN True [])))]) = Some AttributeError"
  using writers_need_resolved_neo [of "(CloseApproach (Some ''999'') (Some (Datetime (Date 2027 4 30) 12 0 0)) (Finite 0.3) (Finite 7) None)" "[(CloseApproach (Some ''433'') (Some (Datetime (Date 2027 4 30) 12 0 0)) (Finite 0.15) (Finite 5.2) (Some (NearEarthObject (Some ''433'') (Some ''Eros'') (Finite 16.84) False []))), (CloseApproach (Some ''999'') (Some (Datetime (Date 2027 4 30) 12 0 0)) (Finite 0.3) (Finite 7) None), (CloseApproach (Some ''2020 AB'') (Some (Datetime (Date 2027 4 30) 12 0 0)) (Finite 0.02) (Finite 11) (Some (NearEarthObject (Some ''2020 AB'') None NaN True [])))]" "\<lparr>cd_to_datetime = (\<lambda>s. Inl ValueError), datetime_to_str = (\<lambda>t. case t of None \<Rightarrow> Inl TypeError | Some d \<Rightarrow> Inr ''2027-04-30 12:00'')\<rparr>"]
  by simp

lemma json_loop_resolved:
  "\<forall>r \<in> set results. neo r \<noteq> None \<and> \<not> isl (datetime_to_str H (time r)) \<Longrightarrow>
   write_to_json_loop H results lst =
     Inr (lst @ map (\<lambda>r.
       JObj [(''datetime_utc'', JStr (projr (datetime_to_str H (time r)))),
             (''distance_au'', JNum (distance r)),
             (''velocity_km_s'', JNum (velocity r)),
             (''neo'', JObj
                [(''designation'',
                   (case designation (the (neo r)) of None \<Rightarrow> JNull | Some s \<Rightarrow> JStr s)),
                 (''name'', (case name (the (neo r)) of None \<Rightarrow> JNull | Some s \<Rightarrow> JStr s)),
                 (''diameter_km'', JNum (diameter (the (neo r)))),
                 (''potentially_hazardous'', JBool (hazardous (the (neo r))))])]) results)"
proof (induction results arbitrary: lst)
  case Nil
  show ?case by simp
next
  case (Cons r rs)
  from Cons.prems obtain n s where "neo r = Some n" "datetime_to_str H (time r) = Inr s"
    by (cases "neo r"; cases "datetime_to_str H (time r)") auto
  with Cons show ?case
    by (simp add: serialize_result_resolved)
qed

text \<open>
  C6. For results that all have a resolved NEO (and a \<open>time\<close> that \<open>datetime_to_str\<close>
  formats), \<open>write_to_json\<close> dumps a list with one object per result, in order. The
  object holds the approach's datetime string, distance and velocity under
  \<open>datetime_utc\<close>, \<open>distance_au\<close> and \<open>velocity_km_s\<close>, and under \<open>neo\<close> an object with
  the NEO's \<open>designation\<close> and \<open>name\<close> (null for \<open>None\<close>), \<open>diameter_km\<close> (NaN stays NaN)
  and \<open>potentially_hazardous\<close>. This document is what \<open>json.load\<close> reads back from
  the file \<open>json.dump\<close> wrote.
\<close>

theorem write_to_json_document:
  assumes "\<forall>r \<in> set results. neo r \<noteq> None \<and> \<not> isl (datetime_to_str H (time r))"
  shows "write_to_json H results =
     Inr (JArr (map (\<lambda>r.
       JObj [(''datetime_utc'', JStr (projr (datetime_to_str H (time r)))),
             (''distance_au'', JNum (distance r)),
             (''velocity_km_s'', JNum (velocity r)),
             (''neo'', JObj
                [(''designation'',
                   (case designation (the (neo r)) of None \<Rightarrow> JNull | Some s \<Rightarrow> JStr s)),
                 (''name'', (case name (the (neo r)) of None \<Rightarrow> JNull | Some s \<Rightarrow> JStr s)),
                 (''diameter_km'', JNum (diameter (the (neo r)))),
                 (''potentially_hazardous'', JBool (hazardous (the (neo r))))])]) results))"
  using json_loop_resolved [OF assms, of "[]"]
  by (simp add: write_to_json_def py_bind_def)

theorem write_to_json_document_witness:
  "write_to_json \<lparr>cd_to_datetime = (\<lambda>s. Inl ValueError), datetime_to_str = (\<lambda>t. case t of None \<Rightarrow> Inl TypeError | Some d \<Rightarrow> Inr ''2027-04-30 12:00'')\<rparr> [(CloseApproach (Some ''433'') (Some (Datetime (Date 2027 4 30) 12 0 0)) (Finite 0.15) (Finite 5.2) (Some (NearEarthObject (Some ''433'') (Some ''Eros'') (Finite 16.84) False []))), (CloseApproach (Some ''2020 AB'') (Some (Datetime (Date 2027 4 30) 12 0 0)) (Finite 0.02) (Finite 11) (Some (NearEarthObject (Some ''2020 AB'') None NaN True [])))] =
     Inr (JArr
       [JObj [(''datetime_utc'', JStr ''2027-04-30 12:00''),
              (''distance_au'', JNum (Finite 0.15)),
              (''velocity_km_s'', JNum (Finite 5.2)),
              (''neo'', JObj [(''designation'', JStr ''433''),
                              (''name'', JStr ''Eros''),
                              (''diameter_km'', JNum (Finite 16.84)),
                              (''potentially_hazardous'', JBool False)])],
        JObj [(''datetime_utc'', JStr ''2027-04-30 12:00''),
              (''distance_au'', JNum (Finite 0.02)),
              (''velocity_km_s'', JNum (Finite 11)),
              (''neo'', JObj [(''designation'', JStr ''2020 AB''),
                              (''name'', JNull),
                              (''diameter_km'', JNum NaN),
                              (''potentially_hazardous'', JBool True)])]])"
  using write_to_json_document [of "[(CloseApproach (Some ''433'') (Some (Datetime (Date 2027 4 30) 12 0 0)) (Finite 0.15) (Finite 5.2) (Some (NearEarthObject (Some ''433'') (Some ''Eros'') (Finite 16.84) False []))), (CloseApproach (Some ''2020 AB'') (Some (Datetime (Date 2027 4 30) 12 0 0)) (Finite 0.02) (Finite 11) (Some (NearEarthObject (Some ''2020 AB'') None NaN True [])))]" "\<lparr>cd_to_datetime = (\<lambda>s. Inl ValueError), datetime_to_str = (\<lambda>t. case t of None \<Rightarrow> Inl TypeError | Some d \<Rightarrow> Inr ''2027-04-30 12:00'')\<rparr>"]
  by simp

section \<open>Properties of the models\<close>

text \<open>
  C9. \<open>set_neo\<close> called with \<open>None\<close> (the default of its parameter) leaves the approach
  as it is. Whatever the argument, only the field \<open>neo\<close> can change, it changes only to
  an argument that is not \<open>None\<close>, and it is \<open>None\<close> afterwards only if it was \<open>None\<close>
  before and the argument was \<open>None\<close>.
\<close>

theorem set_neo_None_keeps_reference:
  "set_neo a None = a
   \<and> neo (set_neo a new) = (case new of None \<Rightarrow> neo a | Some n \<Rightarrow> Some n)
   \<and> (neo (set_neo a new) = None) = (neo a = None \<and> new = None)
   \<and> c_designation (set_neo a new) = c_designation a
   \<and> time (set_neo a new) = time a
   \<and> distance (set_neo a new) = distance a
   \<and> velocity (set_neo a new) = velocity a"
  by (cases a; cases new) simp_all

end
